theory Spec2Isabelle
  imports Complex_Main
begin

section \<open>Metal dispersion analyzer (metal\_dispersion.cpp, version 2.0)\<close>

text \<open>
  The program loads a table of (wavelength, n, k) samples, derives the permittivity,
  the angular frequency and the photon energy of every sample, and fits a Drude model to
  the permittivity by an exhaustive search over a grid of (plasma frequency, damping rate).

  The source file holds two programs one after the other, version 2.0 and the older
  version 1.0. Version 2.0 is the one embedded here; the class \<^verbatim>\<open>Material\<close> of version 1.0
  has the same \<^verbatim>\<open>loadData\<close> and \<^verbatim>\<open>computeEpsilon\<close> and nothing else of interest. The
  plotting calls go to an external library and are left out.

  Conventions of the embedding.
  \<^item> A \<^verbatim>\<open>double\<close> is a \<^typ>\<open>real\<close> and a \<^verbatim>\<open>std::complex<double>\<close> is a
    \<^typ>\<open>complex\<close>: arithmetic is exact, without rounding or overflow, and a decimal
    literal of the source denotes its decimal value (\<^verbatim>\<open>1e-12\<close> is \<open>1 / 10 ^ 12\<close>).
  \<^item> The only way such arithmetic leaves the finite numbers is a division by zero. IEEE
    arithmetic raises nothing there and continues with an infinity or a NaN; HOL would
    silently return \<open>0\<close>. Every division of the source whose divisor can be zero is
    therefore guarded in the model and yields the outcome \<open>NonFinite\<close>.
  \<^item> A \<^verbatim>\<open>std::vector<double>\<close> is a \<^typ>\<open>real list\<close>; \<^verbatim>\<open>push_back\<close> appends.
    \<^verbatim>\<open>operator[]\<close> out of range and \<^verbatim>\<open>front()\<close>/\<^verbatim>\<open>back()\<close> of an empty vector
    are undefined behaviour in C++; the model yields the outcome \<open>UndefinedBehaviour\<close>.
  \<^item> A thrown \<^verbatim>\<open>std::runtime_error\<close> is the outcome \<open>RuntimeError\<close> with its message.
\<close>

datatype error = RuntimeError string | UndefinedBehaviour | NonFinite

subsection \<open>Global constants\<close>




definition omega_min :: real where
  "omega_min = 15 * 10 ^ 14"

definition omega_max :: real where
  "omega_max = 4 * 10 ^ 15"



subsection \<open>class Material\<close>

text \<open>
  The private members \<^verbatim>\<open>name_\<close>, \<^verbatim>\<open>wavelength_\<close>, \<^verbatim>\<open>n_\<close> and \<^verbatim>\<open>k_\<close>. An Isabelle name
  cannot end in an underscore, so each carries the suffix \<open>v\<close>.
\<close>

record Material =
  name_v :: string
  wavelength_v :: "real list"
  n_v :: "real list"
  k_v :: "real list"

text \<open>The constructor \<^verbatim>\<open>Material(const std::string& name)\<close>: the three vectors start empty.\<close>

definition new_Material :: "string \<Rightarrow> Material" where
  "new_Material name = \<lparr>name_v = name, wavelength_v = [], n_v = [], k_v = []\<rparr>"

definition getName :: "Material \<Rightarrow> string" where
  "getName m = name_v m"

definition getWavelength :: "Material \<Rightarrow> real list" where
  "getWavelength m = wavelength_v m"

definition getN :: "Material \<Rightarrow> real list" where
  "getN m = n_v m"

definition getK :: "Material \<Rightarrow> real list" where
  "getK m = k_v m"



text \<open>
  \<^verbatim>\<open>loadData\<close> reads with
  \<^verbatim>\<open>while (file >> lambda >> comma >> n_real >> comma >> n_imag)\<close>.
  The text of the file is seen through the outcomes of the successive evaluations of
  that loop condition: \<open>Parsed lambda n_real n_imag\<close> when the five extractions succeed
  (the two separators are read as any non-blank character), \<open>Malformed\<close> when one of them
  fails on the text at hand. The end of the list is the end of the file, where the
  extraction fails as well. A file that cannot be opened is \<open>None\<close>.
\<close>

datatype row = Parsed real real real | Malformed

fun read_rows :: "Material \<Rightarrow> row list \<Rightarrow> Material" where
  "read_rows m [] = m"
| "read_rows m (Malformed # rest) = m"
| "read_rows m (Parsed lambda n_real n_imag # rest) =
     read_rows (m\<lparr>wavelength_v := wavelength_v m @ [lambda],
                   n_v := n_v m @ [n_real],
                   k_v := k_v m @ [n_imag]\<rparr>) rest"

text \<open>
  The summary written to \<^verbatim>\<open>std::cout\<close>: the number of points, the material's name,
  \<^verbatim>\<open>wavelength_.front()\<close> and \<^verbatim>\<open>wavelength_.back()\<close>.
\<close>

record summary =
  points :: nat
  material :: string
  front_nm :: real
  back_nm :: real

definition loadData :: "Material \<Rightarrow> string \<Rightarrow> row list option \<Rightarrow> error + (Material \<times> summary)" where
  "loadData m filename file =
     (case file of
        None \<Rightarrow> Inl (RuntimeError (''Error: Could not open file '' @ filename))
      | Some rows \<Rightarrow>
          (let m' = read_rows m rows in
           if wavelength_v m' = [] then Inl UndefinedBehaviour
           else Inr (m', \<lparr>points = length (wavelength_v m'), material = name_v m',
                          front_nm = hd (wavelength_v m'), back_nm = last (wavelength_v m')\<rparr>)))"




subsection \<open>The Drude model and the fit error\<close>

text \<open>
  \<^verbatim>\<open>std::complex<double> denom = {omega*omega, gamma*omega};\<close>
  \<^verbatim>\<open>return eps_inf - (omega_p * omega_p)/denom;\<close>
  The parameter \<open>eps_inf\<close> shadows the global of that name and is written \<open>eps_inf'\<close>.
  The function has no branch: when \<open>denom\<close> is the complex zero the quotient has
  components that are infinities or NaNs, and so has the result.
\<close>

definition drude_eps :: "real \<Rightarrow> real \<Rightarrow> real \<Rightarrow> real \<Rightarrow> error + complex" where
  "drude_eps omega eps_inf' omega_p gamma =
     (let denom = Complex (omega * omega) (gamma * omega) in
      if denom = 0 then Inl NonFinite
      else Inr (complex_of_real eps_inf' - complex_of_real (omega_p * omega_p) / denom))"

text \<open>
  \<^verbatim>\<open>computeError\<close>: the loop over the indices of \<^verbatim>\<open>omega\<close>, with the accumulator
  \<^verbatim>\<open>error\<close>. A sample outside the window is skipped before anything else is read. A
  non-finite value of the model would turn the accumulator into a NaN; the model reports
  it as \<open>NonFinite\<close>, an outcome that \<open>computeError_finite\<close> below shows never to arise.
\<close>

function computeError_loop ::
  "real list \<Rightarrow> real \<Rightarrow> real \<Rightarrow> real \<Rightarrow> real list \<Rightarrow> real list \<Rightarrow> nat \<Rightarrow> real \<Rightarrow> error + real" where
  "computeError_loop omega eps_inf' omega_p gamma eps1_data eps2_data i error =
     (if i < length omega then
        (if omega ! i < omega_min \<or> omega ! i > omega_max then
           computeError_loop omega eps_inf' omega_p gamma eps1_data eps2_data (i + 1) error
         else
           (case drude_eps (omega ! i) eps_inf' omega_p gamma of
              Inl e \<Rightarrow> Inl e
            | Inr eps_model \<Rightarrow>
                (if i < length eps1_data \<and> i < length eps2_data then
                   (let real_error = Re eps_model - eps1_data ! i;
                        img_error = Im eps_model - eps2_data ! i;
                        norm' = eps1_data ! i * eps1_data ! i + eps2_data ! i * eps2_data ! i
                                  + 1 / 10 ^ 12
                    in computeError_loop omega eps_inf' omega_p gamma eps1_data eps2_data (i + 1)
                         (error + (real_error * real_error + img_error * img_error) / norm'))
                 else Inl UndefinedBehaviour)))
      else Inr error)"
  by pat_completeness auto
termination
  by (relation "measure (\<lambda>(omega, eps_inf', omega_p, gamma, eps1_data, eps2_data, i, error).
        length omega - i)") auto

declare computeError_loop.simps [simp del]

definition computeError ::
  "real list \<Rightarrow> real \<Rightarrow> real \<Rightarrow> real \<Rightarrow> real list \<Rightarrow> real list \<Rightarrow> error + real" where
  "computeError omega eps_inf' omega_p gamma eps1_data eps2_data =
     computeError_loop omega eps_inf' omega_p gamma eps1_data eps2_data 0 0"

subsection \<open>The grid search of main\<close>






subsection \<open>Notions of the specification\<close>

text \<open>
  The definitions of this subsection are not code of the program: they say what the
  specification describes, and the theorems compare the program with them.

  The rows of a file up to its first malformed row or its end.
\<close>

fun parsed_prefix :: "row list \<Rightarrow> (real \<times> real \<times> real) list" where
  "parsed_prefix [] = []"
| "parsed_prefix (Malformed # rest) = []"
| "parsed_prefix (Parsed lambda n_real n_imag # rest) =
     (lambda, n_real, n_imag) # parsed_prefix rest"

text \<open>The Drude formula \<open>\<epsilon>(\<omega>) = \<epsilon>\<^sub>\<infinity> - \<omega>\<^sub>p\<^sup>2 / (\<omega>\<^sup>2 + i\<gamma>\<omega>)\<close> over the complex numbers.\<close>

definition drude_formula :: "real \<Rightarrow> real \<Rightarrow> real \<Rightarrow> real \<Rightarrow> complex" where
  "drude_formula omega epsInf omegaP gamma =
     complex_of_real epsInf - complex_of_real (omegaP\<^sup>2) / Complex (omega\<^sup>2) (gamma * omega)"

text \<open>The validity window, both ends included.\<close>

definition in_window :: "real \<Rightarrow> bool" where
  "in_window w = (omega_min \<le> w \<and> w \<le> omega_max)"



text \<open>
  The values \<open>lo, lo + step, lo + 2 step, ...\<close> that are strictly below \<open>hi\<close>, for a
  positive step, in increasing order; and the grid of the search in the order of its
  loops, plasma frequency outside and damping rate inside.
\<close>

function half_open_range :: "real \<Rightarrow> real \<Rightarrow> real \<Rightarrow> real list" where
  "half_open_range lo hi step =
     (if 0 < step \<and> lo < hi then lo # half_open_range (lo + step) hi step else [])"
  by pat_completeness auto
termination
proof (relation "measure (\<lambda>(lo, hi, step). nat \<lceil>(hi - lo) / step\<rceil>)")
  show "wf (measure (\<lambda>(lo, hi, step). nat \<lceil>(hi - lo) / step\<rceil>))"
    by simp
next
  fix lo hi step :: real
  assume a: "0 < step \<and> lo < hi"
  then have "(hi - (lo + step)) / step = (hi - lo) / step - 1"
    by (simp add: field_simps)
  moreover from a have "0 < \<lceil>(hi - lo) / step\<rceil>"
    by (simp add: field_simps)
  ultimately have "nat \<lceil>(hi - (lo + step)) / step\<rceil> < nat \<lceil>(hi - lo) / step\<rceil>"
    by simp
  then show "((lo + step, hi, step), (lo, hi, step))
      \<in> measure (\<lambda>(lo, hi, step). nat \<lceil>(hi - lo) / step\<rceil>)"
    by simp
qed

declare half_open_range.simps [simp del]




section \<open>Properties\<close>

subsection \<open>Loading\<close>

lemma read_rows_prefix:
  "read_rows m rows =
     m\<lparr>wavelength_v := wavelength_v m @ map fst (parsed_prefix rows),
       n_v := n_v m @ map (fst \<circ> snd) (parsed_prefix rows),
       k_v := k_v m @ map (snd \<circ> snd) (parsed_prefix rows)\<rparr>"
  by (induction m rows rule: read_rows.induct) simp_all

lemma parsed_prefix_all [simp]:
  "parsed_prefix (map (\<lambda>(l, n, k). Parsed l n k) ps) = ps"
  by (induction ps) auto

lemma parsed_prefix_stop [simp]:
  "parsed_prefix (map (\<lambda>(l, n, k). Parsed l n k) ps @ Malformed # rest) = ps"
  by (induction ps) auto

lemma loadData_new:
  "loadData (new_Material name) filename (Some rows) =
     (if parsed_prefix rows = [] then Inl UndefinedBehaviour
      else Inr (\<lparr>name_v = name, wavelength_v = map fst (parsed_prefix rows),
                  n_v = map (fst \<circ> snd) (parsed_prefix rows),
                  k_v = map (snd \<circ> snd) (parsed_prefix rows)\<rparr>,
                \<lparr>points = length (parsed_prefix rows), material = name,
                  front_nm = fst (hd (parsed_prefix rows)),
                  back_nm = fst (last (parsed_prefix rows))\<rparr>))"
  by (simp add: loadData_def read_rows_prefix new_Material_def Let_def hd_map last_map)

text \<open>
  The three vectors of a material have one length: the constructor makes them empty and
  \<open>loadData\<close>, the only function that changes them, appends to all three.
\<close>

lemma loadData_same_length:
  assumes "loadData m filename file = Inr (m', s)"
    and "length (n_v m) = length (wavelength_v m)"
    and "length (k_v m) = length (wavelength_v m)"
  shows "length (n_v m') = length (wavelength_v m') \<and> length (k_v m') = length (wavelength_v m')"
  using assms
  by (auto simp: loadData_def read_rows_prefix Let_def split: option.splits if_splits)







text \<open>
  Claim C10. When the file opens and no row parses (an empty file, or a first row that is
  malformed), \<open>loadData\<close> on a new material throws nothing and reaches the summary, which
  reads \<open>front()\<close> and \<open>back()\<close> of the empty \<open>wavelength_\<close>: undefined behaviour. The
  load returns normally exactly when at least one row parses.
\<close>

theorem loadData_empty_undefined:
  "loadData (new_Material name) filename (Some []) = Inl UndefinedBehaviour
   \<and> loadData (new_Material name) filename (Some (Malformed # rest)) = Inl UndefinedBehaviour
   \<and> (loadData (new_Material name) filename (Some rows) = Inl UndefinedBehaviour)
       = (parsed_prefix rows = [])
   \<and> (\<exists>m s. loadData (new_Material name) filename (Some rows) = Inr (m, s))
       = (parsed_prefix rows \<noteq> [])
   \<and> loadData (new_Material name) filename (Some rows) \<noteq> Inl (RuntimeError msg)"
  by (simp add: loadData_new)

subsection \<open>Permittivity of the samples\<close>





subsection \<open>The Drude model\<close>

lemma drude_denominator: "Complex (omega * omega) (gamma * omega) = 0 \<longleftrightarrow> omega = 0"
  by (auto simp: complex_eq_iff)

lemma drude_eps_value:
  "omega \<noteq> 0 \<Longrightarrow> drude_eps omega epsInf omegaP gamma = Inr (drude_formula omega epsInf omegaP gamma)"
  by (simp add: drude_eps_def drude_formula_def drude_denominator power2_eq_square Let_def)







subsection \<open>The fit error\<close>

lemma in_window_nonzero: "in_window w \<Longrightarrow> w \<noteq> 0"
  by (auto simp: in_window_def omega_min_def)





text \<open>
  A sample in the window has an angular frequency of at least \<open>omega_min > 0\<close>, so the
  model is never evaluated at zero there: \<open>computeError\<close> never meets a non-finite value.
\<close>

lemma computeError_loop_finite:
  "computeError_loop omega epsInf omega_p gamma eps1_data eps2_data i error \<noteq> Inl NonFinite"
proof (induction omega epsInf omega_p gamma eps1_data eps2_data i error
    rule: computeError_loop.induct)
  case (1 omega epsInf omega_p gamma eps1_data eps2_data i error)
  show ?case
  proof (cases "i < length omega")
    case False
    then show ?thesis
      by (subst computeError_loop.simps) simp
  next
    case True
    show ?thesis
    proof (cases "in_window (omega ! i)")
      case False
      then have out: "omega ! i < omega_min \<or> omega ! i > omega_max"
        by (auto simp: in_window_def)
      show ?thesis
        using True out "1.IH"(1) [OF True out]
        by (subst computeError_loop.simps) simp
    next
      case win: True
      then have nout: "\<not> (omega ! i < omega_min \<or> omega ! i > omega_max)"
        by (auto simp: in_window_def)
      have d: "drude_eps (omega ! i) epsInf omega_p gamma
          = Inr (drude_formula (omega ! i) epsInf omega_p gamma)"
        using in_window_nonzero [OF win] by (rule drude_eps_value)
      show ?thesis
      proof (cases "i < length eps1_data \<and> i < length eps2_data")
        case rng: True
        show ?thesis
          using True nout d rng "1.IH"(2) [OF True nout d rng refl refl refl]
          by (subst computeError_loop.simps) (simp add: Let_def)
      next
        case False
        then show ?thesis
          using True nout d by (subst computeError_loop.simps) auto
      qed
    qed
  qed
qed

lemma computeError_finite:
  "computeError omega epsInf omega_p gamma eps1_data eps2_data \<noteq> Inl NonFinite"
  by (simp add: computeError_def computeError_loop_finite)






subsection \<open>The grid search\<close>

text \<open>The enumeration of a half-open range.\<close>

lemma half_open_range_empty: "hi \<le> lo \<Longrightarrow> half_open_range lo hi step = []"
  by (subst half_open_range.simps) simp

lemma half_open_range_Cons:
  "0 < step \<Longrightarrow> lo < hi \<Longrightarrow> half_open_range lo hi step = lo # half_open_range (lo + step) hi step"
  by (subst half_open_range.simps) simp



lemma half_open_range_closed_form:
  "0 < step \<Longrightarrow>
     half_open_range lo hi step = map (\<lambda>k. lo + real k * step) [0..<nat \<lceil>(hi - lo) / step\<rceil>]"
proof (induction lo hi step rule: half_open_range.induct)
  case (1 lo hi step)
  show ?case
  proof (cases "lo < hi")
    case True
    with "1.prems" have c: "0 < step \<and> lo < hi" by simp
    have shift: "(hi - (lo + step)) / step = (hi - lo) / step - 1"
      using "1.prems" by (simp add: field_simps)
    have pos: "0 < \<lceil>(hi - lo) / step\<rceil>"
      using c by (simp add: field_simps)
    have "nat z = Suc (nat (z - 1))" if "0 < z" for z :: int
      using that by arith
    from this [OF pos]
    have n: "nat \<lceil>(hi - lo) / step\<rceil> = Suc (nat \<lceil>(hi - (lo + step)) / step\<rceil>)"
      unfolding shift by simp
    have "half_open_range lo hi step = lo # half_open_range (lo + step) hi step"
      using c by (simp add: half_open_range_Cons)
    also have "\<dots> = lo # map (\<lambda>k. (lo + step) + real k * step) [0..<nat \<lceil>(hi - (lo + step)) / step\<rceil>]"
      using "1.IH" [OF c "1.prems"] by simp
    also have "\<dots> = map (\<lambda>k. lo + real k * step) [0..<Suc (nat \<lceil>(hi - (lo + step)) / step\<rceil>)]"
      unfolding upt_conv_Cons [OF zero_less_Suc] map_Suc_upt [symmetric]
      by (simp add: algebra_simps)
    finally show ?thesis
      unfolding n .
  next
    case False
    then have "(hi - lo) / step \<le> 0"
      using "1.prems" by (simp add: field_simps)
    then have "nat \<lceil>(hi - lo) / step\<rceil> = 0"
      by (simp add: ceiling_le_zero)
    moreover have "half_open_range lo hi step = []"
      using False by (simp add: half_open_range_empty)
    ultimately show ?thesis by simp
  qed
qed

























subsection \<open>Angular frequency and photon energy\<close>






end
